theory Spec2Isabelle
  imports Complex_Main
begin

section \<open>Shared library model\<close>

text \<open>
  The three tool servers (search, fetch, time) are handlers of the shape
  \<^verbatim>\<open>func (s *Server) handleX(ctx, req)\<close>, which returns a tool result and an error.
  A handler is modelled as a function of the server value, of the environment it runs in
  (the HTTP client, the clock, the time zone database, the library routines whose text is
  not part of the repository) and of the invocation's arguments. It returns the Go pair
  as a sum (\<open>Inl\<close> the error message, \<open>Inr\<close> the text of the result) together with the
  list of outbound HTTP requests it handed to \<^verbatim>\<open>client.Do\<close>.

  A Go \<^verbatim>\<open>error\<close> is modelled by its message; \<^verbatim>\<open>fmt.Errorf("p: %w", err)\<close> is the
  prefix followed by the message of the wrapped error.
\<close>

type_synonym error = string

definition newline :: string where
  "newline = [CHR 0x0A]"

subsection \<open>strconv.Itoa\<close>

definition digitChar :: "nat \<Rightarrow> char" where
  "digitChar d = ''0123456789'' ! d"

fun natToDec :: "nat \<Rightarrow> string" where
  "natToDec n = (if n < 10 then [digitChar n] else natToDec (n div 10) @ [digitChar (n mod 10)])"

declare natToDec.simps [simp del]

definition Itoa :: "int \<Rightarrow> string" where
  "Itoa i = (if i < 0 then CHR ''-'' # natToDec (nat (- i)) else natToDec (nat i))"

subsection \<open>strings.HasPrefix\<close>

definition HasPrefix :: "string \<Rightarrow> string \<Rightarrow> bool" where
  "HasPrefix s pre = (length pre \<le> length s \<and> take (length pre) s = pre)"

subsection \<open>Conversion of a float64 to int\<close>

text \<open>
  Go's \<^verbatim>\<open>int(f)\<close> discards the fraction (truncation towards zero). A finite float64 is a
  rational number, and comparison with a constant and truncation are exact on it, so
  the float64 values are modelled by the reals they denote. When the truncated value
  does not fit the 64-bit \<^verbatim>\<open>int\<close> the Go specification leaves the result to the
  implementation: the model takes it from the parameter \<open>outOfRange\<close>.
\<close>

definition truncInt :: "real \<Rightarrow> int" where
  "truncInt x = (if 0 \<le> x then \<lfloor>x\<rfloor> else \<lceil>x\<rceil>)"

definition float64ToInt :: "(real \<Rightarrow> int) \<Rightarrow> real \<Rightarrow> int" where
  "float64ToInt outOfRange x =
     (if - (2 ^ 63) \<le> truncInt x \<and> truncInt x < 2 ^ 63 then truncInt x else outOfRange x)"

subsection \<open>Arguments of an invocation and encoding/json\<close>

text \<open>
  \<^verbatim>\<open>req.Params.Arguments\<close> is a \<^verbatim>\<open>map[string]interface{}\<close> whose values come from a
  JSON document. Every handler first runs \<^verbatim>\<open>json.Marshal\<close> on the map and then
  \<^verbatim>\<open>json.Unmarshal\<close> into its parameter struct. The arguments are modelled as the
  members of the marshalled object, in the order \<^verbatim>\<open>json.Marshal\<close> writes them.
  \<^verbatim>\<open>json.Marshal\<close> does not fail on values that come from a JSON document, so the
  handlers' branch for its error has no counterpart here.
\<close>

datatype jvalue =
    JNull
  | JBool bool
  | JNumber real
  | JString string
  | JArray "jvalue list"
  | JObject "(string \<times> jvalue) list"

type_synonym arguments = "(string \<times> jvalue) list"

text \<open>The \<^verbatim>\<open>Value\<close> field of \<^verbatim>\<open>json.UnmarshalTypeError\<close>.\<close>

fun jsonKind :: "jvalue \<Rightarrow> string" where
  "jsonKind JNull = ''null''"
| "jsonKind (JBool b) = ''bool''"
| "jsonKind (JNumber x) = ''number''"
| "jsonKind (JString s) = ''string''"
| "jsonKind (JArray xs) = ''array''"
| "jsonKind (JObject kvs) = ''object''"

definition unmarshalTypeError :: "jvalue \<Rightarrow> string \<Rightarrow> string \<Rightarrow> error" where
  "unmarshalTypeError v field ty =
     ''json: cannot unmarshal '' @ jsonKind v @ '' into Go struct field .'' @ field
       @ '' of type '' @ ty"

text \<open>
  Storing a JSON value into a struct field of type string, float64 or bool: \<^verbatim>\<open>null\<close>
  leaves the field as it is, a value of another JSON type is a type error.
\<close>

definition storeString :: "string \<Rightarrow> jvalue \<Rightarrow> error + string option" where
  "storeString field v =
     (case v of JString s \<Rightarrow> Inr (Some s) | JNull \<Rightarrow> Inr None
      | _ \<Rightarrow> Inl (unmarshalTypeError v field ''string''))"

definition storeFloat64 :: "string \<Rightarrow> jvalue \<Rightarrow> error + real option" where
  "storeFloat64 field v =
     (case v of JNumber x \<Rightarrow> Inr (Some x) | JNull \<Rightarrow> Inr None
      | _ \<Rightarrow> Inl (unmarshalTypeError v field ''float64''))"

definition storeBool :: "string \<Rightarrow> jvalue \<Rightarrow> error + bool option" where
  "storeBool field v =
     (case v of JBool b \<Rightarrow> Inr (Some b) | JNull \<Rightarrow> Inr None
      | _ \<Rightarrow> Inl (unmarshalTypeError v field ''bool''))"

text \<open>
  A member of the object is stored into the field whose JSON name is the member's key,
  or else into the first field whose name equals the key under the decoder's case
  folding (\<open>fld\<close>, a parameter); members that match no field are skipped.
\<close>

definition findField :: "(string \<Rightarrow> string) \<Rightarrow> string list \<Rightarrow> string \<Rightarrow> string option" where
  "findField fld names key =
     (if key \<in> set names then Some key else find (\<lambda>n. fld n = fld key) names)"

text \<open>
  The decoder walks the members in order. A type error does not stop it: the first one
  is kept and returned at the end.
\<close>

fun decodeObject ::
  "(string \<Rightarrow> jvalue \<Rightarrow> 'p \<Rightarrow> error + 'p) \<Rightarrow> (string \<Rightarrow> string) \<Rightarrow> string list \<Rightarrow>
   arguments \<Rightarrow> 'p \<Rightarrow> error option \<Rightarrow> 'p \<times> error option" where
  "decodeObject store fld names [] p saved = (p, saved)"
| "decodeObject store fld names ((k, v) # kvs) p saved =
     (case findField fld names k of
        None \<Rightarrow> decodeObject store fld names kvs p saved
      | Some n \<Rightarrow>
          (case store n v p of
             Inl e \<Rightarrow> decodeObject store fld names kvs p
                        (case saved of None \<Rightarrow> Some e | Some e0 \<Rightarrow> Some e0)
           | Inr p' \<Rightarrow> decodeObject store fld names kvs p' saved))"

definition Unmarshal ::
  "(string \<Rightarrow> jvalue \<Rightarrow> 'p \<Rightarrow> error + 'p) \<Rightarrow> (string \<Rightarrow> string) \<Rightarrow> string list \<Rightarrow>
   'p \<Rightarrow> arguments \<Rightarrow> error + 'p" where
  "Unmarshal store fld names zero args =
     (case decodeObject store fld names args zero None of
        (p, None) \<Rightarrow> Inr p
      | (p, Some e) \<Rightarrow> Inl e)"

subsection \<open>HTTP requests, responses and the bounded read\<close>

record request =
  reqMethod :: string
  reqURL :: string
  reqQuery :: "(string \<times> string) list"
  reqHeader :: "(string \<times> string) list"
  reqBody :: "string option"

text \<open>
  \<open>reqQuery\<close> holds the \<^verbatim>\<open>url.Values\<close> that the search handler appends to the base URL
  (\<^verbatim>\<open>baseURL + "?" + values.Encode()\<close>), in the order of the \<^verbatim>\<open>Add\<close> calls; the
  percent-encoding is not modelled. \<^verbatim>\<open>Header.Set\<close> replaces the value stored under a key.
\<close>

definition Header_Set :: "string \<Rightarrow> string \<Rightarrow> (string \<times> string) list \<Rightarrow> (string \<times> string) list" where
  "Header_Set k v h = filter (\<lambda>kv. fst kv \<noteq> k) h @ [(k, v)]"

text \<open>
  A response body is a stream: the bytes the peer delivers, and how the stream ends.
  \<open>EOF\<close> is the regular end. \<open>ErrAfter e\<close> is a stream that fails with \<open>e\<close> on the
  \<^verbatim>\<open>Read\<close> that follows the last byte; \<open>ErrWith e\<close> is one whose \<^verbatim>\<open>Read\<close> returns the
  last bytes and the error \<open>e\<close> in the same call.
\<close>

datatype ending = EOF | ErrAfter error | ErrWith error

datatype bodyStream = Body string ending

record response =
  respStatusCode :: int
  respHeader :: "(string \<times> string list) list"
  respBody :: bodyStream

text \<open>
  \<^verbatim>\<open>io.ReadAll(io.LimitReader(resp.Body, n))\<close>. The limited reader answers \<^verbatim>\<open>EOF\<close>
  without touching the stream once its budget \<open>n\<close> is used up (at once when \<open>n \<le> 0\<close>),
  and never asks the stream for more than the rest of the budget. \<^verbatim>\<open>ReadAll\<close> turns
  \<^verbatim>\<open>EOF\<close> into success and returns what it has read with any other error.
\<close>

fun ReadAll_LimitReader :: "bodyStream \<Rightarrow> int \<Rightarrow> string \<times> error option" where
  "ReadAll_LimitReader (Body bytes fin) n =
     (if n \<le> 0 then ([], None)
      else if n < int (length bytes) then (take (nat n) bytes, None)
      else if n = int (length bytes) then
        (bytes, case fin of ErrWith e \<Rightarrow> Some e | _ \<Rightarrow> None)
      else
        (bytes, case fin of EOF \<Rightarrow> None | ErrAfter e \<Rightarrow> Some e | ErrWith e \<Rightarrow> Some e))"

section \<open>The search server\<close>

record GoogleSearchServer =
  gsUserAgent :: string
  gsMaxBodySize :: int
  gsApiKey :: string
  gsSearchEngineID :: string

record searchParams =
  Query :: string
  Num :: real
  Start :: real
  Language :: string
  Country :: string
  SafeSearch :: bool

definition zeroSearchParams :: searchParams where
  "zeroSearchParams =
     \<lparr>Query = [], Num = 0, Start = 0, Language = [], Country = [], SafeSearch = False\<rparr>"

definition searchFieldNames :: "string list" where
  "searchFieldNames = [''query'', ''num'', ''start'', ''language'', ''country'', ''safeSearch'']"

definition storeSearchField :: "string \<Rightarrow> jvalue \<Rightarrow> searchParams \<Rightarrow> error + searchParams" where
  "storeSearchField n v p =
     (if n = ''query'' then
        (case storeString n v of Inl e \<Rightarrow> Inl e | Inr None \<Rightarrow> Inr p
         | Inr (Some s) \<Rightarrow> Inr (p\<lparr>Query := s\<rparr>))
      else if n = ''num'' then
        (case storeFloat64 n v of Inl e \<Rightarrow> Inl e | Inr None \<Rightarrow> Inr p
         | Inr (Some x) \<Rightarrow> Inr (p\<lparr>Num := x\<rparr>))
      else if n = ''start'' then
        (case storeFloat64 n v of Inl e \<Rightarrow> Inl e | Inr None \<Rightarrow> Inr p
         | Inr (Some x) \<Rightarrow> Inr (p\<lparr>Start := x\<rparr>))
      else if n = ''language'' then
        (case storeString n v of Inl e \<Rightarrow> Inl e | Inr None \<Rightarrow> Inr p
         | Inr (Some s) \<Rightarrow> Inr (p\<lparr>Language := s\<rparr>))
      else if n = ''country'' then
        (case storeString n v of Inl e \<Rightarrow> Inl e | Inr None \<Rightarrow> Inr p
         | Inr (Some s) \<Rightarrow> Inr (p\<lparr>Country := s\<rparr>))
      else
        (case storeBool n v of Inl e \<Rightarrow> Inl e | Inr None \<Rightarrow> Inr p
         | Inr (Some b) \<Rightarrow> Inr (p\<lparr>SafeSearch := b\<rparr>)))"

definition unmarshalSearchParams :: "(string \<Rightarrow> string) \<Rightarrow> arguments \<Rightarrow> error + searchParams" where
  "unmarshalSearchParams fld args =
     Unmarshal storeSearchField fld searchFieldNames zeroSearchParams args"

text \<open>The part of \<^verbatim>\<open>GoogleApiResponse\<close> that the handler reads.\<close>

record searchInformation =
  FormattedSearchTime :: string
  FormattedTotalResults :: string

record apiItem =
  itemTitle :: string
  itemLink :: string
  itemSnippet :: string
  itemDisplayLink :: string

record GoogleApiResponse =
  SearchInformation :: "searchInformation option"
  Items :: "apiItem list"

text \<open>
  What the search handler takes from its surroundings: the decoder's case folding, the
  platform's answer to an out-of-range float conversion, the HTTP client
  (\<^verbatim>\<open>s.client.Do\<close>: a transport error or a response) and \<^verbatim>\<open>json.Unmarshal\<close> of the
  response body into \<^verbatim>\<open>GoogleApiResponse\<close>.
\<close>

record searchEnv =
  seFold :: "string \<Rightarrow> string"
  seOutOfRange :: "real \<Rightarrow> int"
  seClientDo :: "request \<Rightarrow> error + response"
  seParseResponse :: "string \<Rightarrow> error + GoogleApiResponse"

definition apiKeyMissingStatus :: string where
  "apiKeyMissingStatus = ''Error: API key is not configured. Please set the API_KEY environment variable or use the -api-key flag.''"

definition searchEngineIdMissingStatus :: string where
  "searchEngineIdMissingStatus = ''Error: Search Engine ID is not configured. Please set the SEARCH_ENGINE_ID environment variable or use the -search-engine-id flag.''"

definition configuredStatus :: string where
  "configuredStatus = ''Google Search API is properly configured and ready to use.''"

definition handleApiStatus :: "GoogleSearchServer \<Rightarrow> error + string" where
  "handleApiStatus s =
     (let statusMsg =
        (if gsApiKey s = [] then apiKeyMissingStatus
         else if gsSearchEngineID s = [] then searchEngineIdMissingStatus
         else configuredStatus)
      in Inr statusMsg)"

text \<open>The defaults and limits of \<^verbatim>\<open>num\<close> and \<^verbatim>\<open>start\<close>, applied to the float64 fields.\<close>

definition effectiveNum :: "real \<Rightarrow> real" where
  "effectiveNum n = (if n \<le> 0 then 5 else if n > 10 then 10 else n)"

definition effectiveStart :: "real \<Rightarrow> real" where
  "effectiveStart st = (if st \<le> 0 then 1 else st)"

definition searchBaseURL :: string where
  "searchBaseURL = ''https://www.googleapis.com/customsearch/v1''"

definition searchValues :: "GoogleSearchServer \<Rightarrow> searchEnv \<Rightarrow> searchParams \<Rightarrow> (string \<times> string) list" where
  "searchValues s env p =
     [(''q'', Query p),
      (''key'', gsApiKey s),
      (''cx'', gsSearchEngineID s),
      (''num'', Itoa (float64ToInt (seOutOfRange env) (effectiveNum (Num p)))),
      (''start'', Itoa (float64ToInt (seOutOfRange env) (effectiveStart (Start p))))]
     @ (if Language p \<noteq> [] then [(''lr'', ''lang_'' @ Language p)] else [])
     @ (if Country p \<noteq> [] then [(''gl'', Country p)] else [])
     @ (if SafeSearch p then [(''safe'', ''active'')] else [(''safe'', ''off'')])"

text \<open>
  The request of a search: \<^verbatim>\<open>http.NewRequestWithContext\<close> is given the constant method
  \<^verbatim>\<open>GET\<close> and a URL made of the constant base and an encoded query, which it always
  accepts; then the two headers are set.
\<close>

definition searchRequest :: "GoogleSearchServer \<Rightarrow> searchEnv \<Rightarrow> searchParams \<Rightarrow> request" where
  "searchRequest s env p =
     \<lparr>reqMethod = ''GET'',
      reqURL = searchBaseURL,
      reqQuery = searchValues s env p,
      reqHeader = Header_Set ''Accept'' ''application/json''
                    (Header_Set ''User-Agent'' (gsUserAgent s) []),
      reqBody = None\<rparr>"

fun formatResults :: "nat \<Rightarrow> apiItem list \<Rightarrow> string" where
  "formatResults i [] = []"
| "formatResults i (r # rs) =
     Itoa (int i + 1) @ ''. '' @ itemTitle r @ newline
     @ ''   URL: '' @ itemLink r @ newline
     @ ''   '' @ itemSnippet r @ newline @ newline
     @ formatResults (Suc i) rs"

definition formatSearch :: "string \<Rightarrow> GoogleApiResponse \<Rightarrow> string" where
  "formatSearch query r =
     (let totalResults = (case SearchInformation r of None \<Rightarrow> []
                          | Some si \<Rightarrow> FormattedTotalResults si);
          searchTime = (case SearchInformation r of None \<Rightarrow> []
                        | Some si \<Rightarrow> FormattedSearchTime si)
      in ''Google Search Results for: '' @ query @ newline @ newline
         @ ''Found approximately '' @ totalResults @ '' results in '' @ searchTime
         @ '' seconds'' @ newline @ newline
         @ (if Items r = [] then ''No results found.'' else formatResults 0 (Items r)))"

definition apiError :: "string \<Rightarrow> int \<Rightarrow> error" where
  "apiError body status = ''API error: '' @ body @ '' (status code: '' @ Itoa status @ '')''"

text \<open>
  The handler, from the request it has built onwards: the call, the bounded read, the
  status check, the decoding of the body and the report.
\<close>

definition searchExchange ::
  "GoogleSearchServer \<Rightarrow> searchEnv \<Rightarrow> searchParams \<Rightarrow> (error + string) \<times> request list" where
  "searchExchange s env p =
     (let httpReq = searchRequest s env p in
      case seClientDo env httpReq of
        Inl e \<Rightarrow> (Inl (''request failed: '' @ e), [httpReq])
      | Inr resp \<Rightarrow>
          (case ReadAll_LimitReader (respBody resp) (gsMaxBodySize s) of
             (body, Some e) \<Rightarrow> (Inl (''failed to read response body: '' @ e), [httpReq])
           | (body, None) \<Rightarrow>
               if respStatusCode resp \<noteq> 200 then
                 (Inl (apiError body (respStatusCode resp)), [httpReq])
               else
                 (case seParseResponse env body of
                    Inl e \<Rightarrow> (Inl (''failed to parse API response: '' @ e), [httpReq])
                  | Inr apiResponse \<Rightarrow>
                      (Inr (formatSearch (Query p) apiResponse), [httpReq]))))"

definition handleGoogleSearch ::
  "GoogleSearchServer \<Rightarrow> searchEnv \<Rightarrow> arguments \<Rightarrow> (error + string) \<times> request list" where
  "handleGoogleSearch s env args =
     (if gsApiKey s = [] then (Inl ''API key is not configured'', [])
      else if gsSearchEngineID s = [] then (Inl ''Search Engine ID is not configured'', [])
      else
        case unmarshalSearchParams (seFold env) args of
          Inl e \<Rightarrow> (Inl (''invalid parameters: '' @ e), [])
        | Inr params \<Rightarrow>
            if Query params = [] then (Inl ''Search query cannot be empty'', [])
            else searchExchange s env params)"

section \<open>The fetch server\<close>

record FetchServer =
  fsUserAgent :: string
  fsMaxBodySize :: int

record fetchParams =
  fpURL :: string
  fpMethod :: string
  fpBody :: string
  fpContentType :: string
  fpHeaders :: string

definition zeroFetchParams :: fetchParams where
  "zeroFetchParams = \<lparr>fpURL = [], fpMethod = [], fpBody = [], fpContentType = [], fpHeaders = []\<rparr>"

definition fetchFieldNames :: "string list" where
  "fetchFieldNames = [''url'', ''method'', ''body'', ''contentType'', ''headers'']"

definition storeFetchField :: "string \<Rightarrow> jvalue \<Rightarrow> fetchParams \<Rightarrow> error + fetchParams" where
  "storeFetchField n v p =
     (case storeString n v of
        Inl e \<Rightarrow> Inl e
      | Inr None \<Rightarrow> Inr p
      | Inr (Some x) \<Rightarrow>
          Inr (if n = ''url'' then p\<lparr>fpURL := x\<rparr>
               else if n = ''method'' then p\<lparr>fpMethod := x\<rparr>
               else if n = ''body'' then p\<lparr>fpBody := x\<rparr>
               else if n = ''contentType'' then p\<lparr>fpContentType := x\<rparr>
               else p\<lparr>fpHeaders := x\<rparr>))"

definition unmarshalFetchParams :: "(string \<Rightarrow> string) \<Rightarrow> arguments \<Rightarrow> error + fetchParams" where
  "unmarshalFetchParams fld args =
     Unmarshal storeFetchField fld fetchFieldNames zeroFetchParams args"

record responseDetails =
  rdStatusCode :: int
  rdHeaders :: "(string \<times> string) list"
  rdBody :: string
  rdURL :: string
  rdMethod :: string

text \<open>
  What the fetch handler takes from its surroundings: the decoder's case folding;
  \<^verbatim>\<open>http.NewRequestWithContext\<close>, which rejects a method or a URL it cannot parse;
  \<^verbatim>\<open>json.Unmarshal\<close> of the \<^verbatim>\<open>headers\<close> string into a \<^verbatim>\<open>map[string]string\<close>, given as
  the pairs in the order the \<^verbatim>\<open>range\<close> loop visits them; the canonical form of a header
  key; the HTTP client; and \<^verbatim>\<open>json.MarshalIndent\<close> of the response details.
\<close>

record fetchEnv =
  feFold :: "string \<Rightarrow> string"
  feNewRequest :: "string \<Rightarrow> string \<Rightarrow> error option"
  feParseHeaders :: "string \<Rightarrow> error + (string \<times> string) list"
  feCanonicalKey :: "string \<Rightarrow> string"
  feClientDo :: "request \<Rightarrow> error + response"
  feMarshalIndent :: "responseDetails \<Rightarrow> error + string"

fun firstValues :: "(string \<times> string list) list \<Rightarrow> (string \<times> string) list" where
  "firstValues [] = []"
| "firstValues ((k, []) # rest) = firstValues rest"
| "firstValues ((k, v # vs) # rest) = (k, v) # firstValues rest"

fun setCustomHeaders ::
  "(string \<Rightarrow> string) \<Rightarrow> (string \<times> string) list \<Rightarrow> (string \<times> string) list \<Rightarrow>
   (string \<times> string) list" where
  "setCustomHeaders canon [] h = h"
| "setCustomHeaders canon ((k, v) # kvs) h = setCustomHeaders canon kvs (Header_Set (canon k) v h)"

definition fetchMethod :: "fetchParams \<Rightarrow> string" where
  "fetchMethod p = (if fpMethod p = [] then ''GET'' else fpMethod p)"

definition fetchBaseHeaders :: "FetchServer \<Rightarrow> fetchParams \<Rightarrow> (string \<times> string) list" where
  "fetchBaseHeaders s p =
     (let h = Header_Set ''User-Agent'' (fsUserAgent s) [] in
      if fpContentType p \<noteq> [] then Header_Set ''Content-Type'' (fpContentType p) h
      else if fpBody p \<noteq> [] \<and>
              (fetchMethod p = ''POST'' \<or> fetchMethod p = ''PUT'' \<or> fetchMethod p = ''PATCH'')
      then Header_Set ''Content-Type'' ''application/json'' h
      else h)"

definition fetchRequest :: "fetchParams \<Rightarrow> (string \<times> string) list \<Rightarrow> request" where
  "fetchRequest p h =
     \<lparr>reqMethod = fetchMethod p,
      reqURL = fpURL p,
      reqQuery = [],
      reqHeader = h,
      reqBody = (if fpBody p \<noteq> [] then Some (fpBody p) else None)\<rparr>"

definition fetchReport :: "string \<Rightarrow> int \<Rightarrow> string \<Rightarrow> string" where
  "fetchReport url status responseJSON =
     ''Response from '' @ url @ '' (status: '' @ Itoa status @ ''):'' @ newline @ responseJSON"

text \<open>
  The handler from \<^verbatim>\<open>s.client.Do\<close> onwards. There is no test of the status code on
  this path.
\<close>

definition fetchExchange ::
  "FetchServer \<Rightarrow> fetchEnv \<Rightarrow> fetchParams \<Rightarrow> request \<Rightarrow> (error + string) \<times> request list" where
  "fetchExchange s env p httpReq =
     (case feClientDo env httpReq of
        Inl e \<Rightarrow> (Inl (''request failed: '' @ e), [httpReq])
      | Inr resp \<Rightarrow>
          (case ReadAll_LimitReader (respBody resp) (fsMaxBodySize s) of
             (body, Some e) \<Rightarrow> (Inl (''failed to read response body: '' @ e), [httpReq])
           | (body, None) \<Rightarrow>
               (let responseDetails =
                      \<lparr>rdStatusCode = respStatusCode resp,
                       rdHeaders = firstValues (respHeader resp),
                       rdBody = body,
                       rdURL = fpURL p,
                       rdMethod = fetchMethod p\<rparr>
                in case feMarshalIndent env responseDetails of
                     Inl e \<Rightarrow> (Inl (''error marshaling response: '' @ e), [httpReq])
                   | Inr responseJSON \<Rightarrow>
                       (Inr (fetchReport (fpURL p) (respStatusCode resp) responseJSON),
                        [httpReq]))))"

definition handleFetchURL ::
  "FetchServer \<Rightarrow> fetchEnv \<Rightarrow> arguments \<Rightarrow> (error + string) \<times> request list" where
  "handleFetchURL s env args =
     (case unmarshalFetchParams (feFold env) args of
        Inl e \<Rightarrow> (Inl (''invalid parameters: '' @ e), [])
      | Inr params \<Rightarrow>
          if \<not> HasPrefix (fpURL params) ''http://'' \<and> \<not> HasPrefix (fpURL params) ''https://''
          then (Inl ''URL must begin with http:// or https://'', [])
          else
            (case feNewRequest env (fetchMethod params) (fpURL params) of
               Some e \<Rightarrow> (Inl (''failed to create request: '' @ e), [])
             | None \<Rightarrow>
                 if fpHeaders params \<noteq> [] then
                   (case feParseHeaders env (fpHeaders params) of
                      Inl e \<Rightarrow> (Inl (''invalid headers JSON: '' @ e), [])
                    | Inr headers \<Rightarrow>
                        fetchExchange s env params
                          (fetchRequest params
                             (setCustomHeaders (feCanonicalKey env) headers
                                (fetchBaseHeaders s params))))
                 else
                   fetchExchange s env params
                     (fetchRequest params (fetchBaseHeaders s params))))"

section \<open>The time server\<close>

subsection \<open>The time package\<close>

text \<open>
  A \<^verbatim>\<open>time.Location\<close> is its name and the offset (seconds east of UTC) in force at each
  instant, given in Unix seconds. A \<^verbatim>\<open>time.Time\<close> is an instant, counted in seconds and
  nanoseconds from January 1 of year 1, 00:00:00 UTC, and the location it is shown in.
  \<^verbatim>\<open>time.Time{}\<close> is that very instant, in UTC.
\<close>

record Location =
  locName :: string
  locLookup :: "int \<Rightarrow> int"

record Time =
  tSec :: int
  tNsec :: int
  tLoc :: Location

definition zeroOffset :: "int \<Rightarrow> int" where
  "zeroOffset unix = 0"

definition UTC :: Location where
  "UTC = \<lparr>locName = ''UTC'', locLookup = zeroOffset\<rparr>"

definition constOffset :: "int \<Rightarrow> int \<Rightarrow> int" where
  "constOffset offset unix = offset"

definition FixedZone :: "string \<Rightarrow> int \<Rightarrow> Location" where
  "FixedZone name offset = \<lparr>locName = name, locLookup = constOffset offset\<rparr>"

definition zeroTime :: Time where
  "zeroTime = \<lparr>tSec = 0, tNsec = 0, tLoc = UTC\<rparr>"

definition IsZero :: "Time \<Rightarrow> bool" where
  "IsZero t = (tSec t = 0 \<and> tNsec t = 0)"

definition unixToInternal :: int where
  "unixToInternal = 62135596800"

definition unixSec :: "Time \<Rightarrow> int" where
  "unixSec t = tSec t - unixToInternal"

definition In :: "Time \<Rightarrow> Location \<Rightarrow> Time" where
  "In t loc = t\<lparr>tLoc := loc\<rparr>"

text \<open>The calendar: leap years, the length of a month, the day number of a date.\<close>

definition isLeap :: "int \<Rightarrow> bool" where
  "isLeap year =
     (if year mod 4 \<noteq> 0 then False else if year mod 100 \<noteq> 0 then True else year mod 400 = 0)"

definition daysIn :: "int \<Rightarrow> int \<Rightarrow> int" where
  "daysIn month year =
     (if month = 2 then (if isLeap year then 29 else 28)
      else if month = 4 \<or> month = 6 \<or> month = 9 \<or> month = 11 then 30
      else 31)"

definition daysBefore :: "int \<Rightarrow> int" where
  "daysBefore month = [0, 31, 59, 90, 120, 151, 181, 212, 243, 273, 304, 334] ! nat (month - 1)"

text \<open>
  Days from January 1 of year 1 to the given date (month 1 to 12, day from 1), in the
  proleptic Gregorian calendar.
\<close>

definition daysSinceEpoch :: "int \<Rightarrow> int \<Rightarrow> int \<Rightarrow> int" where
  "daysSinceEpoch year month day =
     365 * (year - 1) + (year - 1) div 4 - (year - 1) div 100 + (year - 1) div 400
     + daysBefore month + (if isLeap year \<and> 2 < month then 1 else 0)
     + (day - 1)"

text \<open>\<^verbatim>\<open>time.Date\<close> in UTC, for fields that are in range.\<close>

definition Date :: "int \<Rightarrow> int \<Rightarrow> int \<Rightarrow> int \<Rightarrow> int \<Rightarrow> int \<Rightarrow> int \<Rightarrow> Time" where
  "Date year month day hour minute sec nsec =
     \<lparr>tSec = daysSinceEpoch year month day * 86400 + hour * 3600 + minute * 60 + sec,
      tNsec = nsec,
      tLoc = UTC\<rparr>"

text \<open>
  The civil date of a day number (0 is January 1 of year 1): the year is counted from
  March 1 of year 0 in cycles of 400 years, so that the leap day ends the year.
\<close>

definition civilFromDays :: "int \<Rightarrow> int \<times> int \<times> int" where
  "civilFromDays days =
     (let z = days + 306;
          era = z div 146097;
          doe = z mod 146097;
          yoe = (doe - doe div 1460 + doe div 36524 - doe div 146096) div 365;
          doy = doe - (365 * yoe + yoe div 4 - yoe div 100);
          mp = (5 * doy + 2) div 153;
          d = doy - (153 * mp + 2) div 5 + 1;
          m = (if mp < 10 then mp + 3 else mp - 9);
          y = yoe + era * 400 + (if m \<le> 2 then 1 else 0)
      in (y, m, d))"

subsection \<open>Parsing and formatting RFC 3339\<close>

definition isDigit :: "char \<Rightarrow> bool" where
  "isDigit c = (c \<in> set ''0123456789'')"

definition digitVal :: "char \<Rightarrow> int" where
  "digitVal c = int (length (takeWhile (\<lambda>d. d \<noteq> c) ''0123456789''))"

fun atoiAcc :: "int \<Rightarrow> string \<Rightarrow> int" where
  "atoiAcc x [] = x"
| "atoiAcc x (c # cs) = atoiAcc (x * 10 + digitVal c) cs"

text \<open>
  \<^verbatim>\<open>parseUint\<close> of the strict parser: the decimal value of a field of digits, if it lies
  between the bounds.
\<close>

definition parseUint :: "string \<Rightarrow> int \<Rightarrow> int \<Rightarrow> int option" where
  "parseUint cs lo hi =
     (if list_all isDigit cs \<and> lo \<le> atoiAcc 0 cs \<and> atoiAcc 0 cs \<le> hi
      then Some (atoiAcc 0 cs) else None)"

definition slice :: "string \<Rightarrow> nat \<Rightarrow> nat \<Rightarrow> string" where
  "slice s i j = take (j - i) (drop i s)"

text \<open>
  \<^verbatim>\<open>parseNanoseconds\<close>: the digits after the point, of which at most nine count, scaled to
  nanoseconds.
\<close>

definition parseNanoseconds :: "string \<Rightarrow> int" where
  "parseNanoseconds ds = atoiAcc 0 (take 9 ds) * 10 ^ (9 - length (take 9 ds))"

text \<open>
  The zone of a timestamp, from the text after the seconds: \<^verbatim>\<open>Z\<close>, or a sign, two digits
  of hours (at most 23), a colon and two digits of minutes (at most 59). The result is
  the offset in seconds, \<open>None\<close> for \<^verbatim>\<open>Z\<close>.
\<close>

definition parseZone :: "string \<Rightarrow> int option option" where
  "parseZone z =
     (if z = ''Z'' then Some None
      else if length z \<noteq> 6 then None
      else
        (case (parseUint (slice z 1 3) 0 23, parseUint (slice z 4 6) 0 59) of
           (Some hr, Some mm) \<Rightarrow>
             if (z ! 0 = CHR ''-'' \<or> z ! 0 = CHR ''+'') \<and> z ! 3 = CHR '':''
             then Some (Some ((if z ! 0 = CHR ''-'' then - 1 else 1) * ((hr * 60 + mm) * 60)))
             else None
         | _ \<Rightarrow> None))"

text \<open>
  The strict parser of \<^verbatim>\<open>YYYY-MM-DDTHH:MM:SS[.fraction](Z|+hh:mm|-hh:mm)\<close>. A timestamp
  with a numeric offset is placed in the local zone when that zone has this offset at
  the instant, and in an unnamed fixed zone otherwise.
\<close>

definition parseRFC3339 :: "Location \<Rightarrow> string \<Rightarrow> Time option" where
  "parseRFC3339 local s =
     (if length s < 19 then None
      else
        (case (parseUint (slice s 0 4) 0 9999, parseUint (slice s 5 7) 1 12) of
           (Some year, Some month) \<Rightarrow>
             (case (parseUint (slice s 8 10) 1 (daysIn month year),
                    parseUint (slice s 11 13) 0 23,
                    parseUint (slice s 14 16) 0 59,
                    parseUint (slice s 17 19) 0 59) of
                (Some day, Some hour, Some minute, Some sec) \<Rightarrow>
                  if s ! 4 = CHR ''-'' \<and> s ! 7 = CHR ''-'' \<and> s ! 10 = CHR ''T''
                     \<and> s ! 13 = CHR '':'' \<and> s ! 16 = CHR '':''
                  then
                    (let rest = drop 19 s;
                         hasFraction = (2 \<le> length rest \<and> rest ! 0 = CHR ''.'' \<and> isDigit (rest ! 1));
                         fraction = (if hasFraction then takeWhile isDigit (drop 1 rest) else []);
                         nsec = (if hasFraction then parseNanoseconds fraction else 0);
                         zone = (if hasFraction then drop (1 + length fraction) rest else rest);
                         t = Date year month day hour minute sec nsec
                     in case parseZone zone of
                          None \<Rightarrow> None
                        | Some None \<Rightarrow> Some t
                        | Some (Some zoneOffset) \<Rightarrow>
                            (let t' = t\<lparr>tSec := tSec t - zoneOffset\<rparr>
                             in if locLookup local (unixSec t') = zoneOffset
                                then Some (In t' local)
                                else Some (In t' (FixedZone [] zoneOffset))))
                  else None
              | _ \<Rightarrow> None)
         | _ \<Rightarrow> None))"

text \<open>\<^verbatim>\<open>appendInt\<close>: a sign for a negative number, then the digits padded with zeros.\<close>

definition appendInt :: "int \<Rightarrow> nat \<Rightarrow> string" where
  "appendInt x width =
     (let ds = natToDec (nat \<bar>x\<bar>)
      in (if x < 0 then ''-'' else []) @ replicate (width - length ds) CHR ''0'' @ ds)"

text \<open>
  \<^verbatim>\<open>t.Format(time.RFC3339)\<close>: the civil date and time of day at the offset of the
  location, then \<^verbatim>\<open>Z\<close> for offset zero and the offset in hours and minutes otherwise
  (the division by 60 drops the seconds of the offset, towards zero).
\<close>

definition formatZone :: "int \<Rightarrow> string" where
  "formatZone offset =
     (if offset = 0 then ''Z''
      else
        (let zone = (if offset < 0 then - ((- offset) div 60) else offset div 60)
         in (if zone < 0 then ''-'' else ''+'')
            @ appendInt (\<bar>zone\<bar> div 60) 2 @ '':'' @ appendInt (\<bar>zone\<bar> mod 60) 2))"

definition Format_RFC3339 :: "Time \<Rightarrow> string" where
  "Format_RFC3339 t =
     (let offset = locLookup (tLoc t) (unixSec t);
          abs = tSec t + offset;
          secOfDay = abs mod 86400
      in case civilFromDays (abs div 86400) of
           (year, month, day) \<Rightarrow>
             appendInt year 4 @ ''-'' @ appendInt month 2 @ ''-'' @ appendInt day 2 @ ''T''
             @ appendInt (secOfDay div 3600) 2 @ '':''
             @ appendInt (secOfDay mod 3600 div 60) 2 @ '':''
             @ appendInt (secOfDay mod 60) 2
             @ formatZone offset)"

subsection \<open>The server\<close>

record TimeServer =
  tsDefaultTimezone :: string

text \<open>
  What the time handler takes from its surroundings: the decoder's case folding, the
  time zone database behind \<^verbatim>\<open>time.LoadLocation\<close>, the local zone, the clock
  (\<^verbatim>\<open>time.Now()\<close>), and the layout-driven parser that \<^verbatim>\<open>time.Parse\<close> applies to a text
  the strict parser does not accept (it reports the error, or accepts a lenient form).
\<close>

record timeEnv =
  teFold :: "string \<Rightarrow> string"
  teZoneinfo :: "string \<Rightarrow> error + Location"
  teLocal :: Location
  teNow :: Time
  teParseLayout :: "string \<Rightarrow> error + Time"

fun containsDotDot :: "string \<Rightarrow> bool" where
  "containsDotDot (a # b # cs) = (if a = CHR ''.'' \<and> b = CHR ''.'' then True else containsDotDot (b # cs))"
| "containsDotDot cs = False"

definition LoadLocation :: "timeEnv \<Rightarrow> string \<Rightarrow> error + Location" where
  "LoadLocation env name =
     (if name = [] \<or> name = ''UTC'' then Inr UTC
      else if name = ''Local'' then Inr (teLocal env)
      else if containsDotDot name \<or> hd name = CHR ''/'' \<or> hd name = CHR 0x5C
      then Inl ''time: invalid location name''
      else teZoneinfo env name)"

definition Parse_RFC3339 :: "timeEnv \<Rightarrow> string \<Rightarrow> error + Time" where
  "Parse_RFC3339 env s =
     (case parseRFC3339 (teLocal env) s of
        Some t \<Rightarrow> Inr t
      | None \<Rightarrow> teParseLayout env s)"

definition convertTimeToTimezone ::
  "TimeServer \<Rightarrow> timeEnv \<Rightarrow> string \<Rightarrow> string \<Rightarrow> string \<times> Time \<times> error option" where
  "convertTimeToTimezone s env timeStr requestedTimezone =
     (let timezone = (if requestedTimezone = [] then tsDefaultTimezone s else requestedTimezone)
      in case LoadLocation env timezone of
           Inl e \<Rightarrow> ([], zeroTime, Some (''invalid timezone: '' @ e))
         | Inr loc \<Rightarrow>
             if timeStr = [] then (timezone, In (teNow env) loc, None)
             else
               (case Parse_RFC3339 env timeStr of
                  Inl e \<Rightarrow>
                    ([], zeroTime,
                     Some (''invalid time format (expected RFC3339, e.g. 2025-04-06T14:30:00Z): '' @ e))
                | Inr parsedTime \<Rightarrow> (timezone, In parsedTime loc, None)))"

record timeParams =
  tpTimezone :: string
  tpTimeStr :: string

definition zeroTimeParams :: timeParams where
  "zeroTimeParams = \<lparr>tpTimezone = [], tpTimeStr = []\<rparr>"

definition timeFieldNames :: "string list" where
  "timeFieldNames = [''timezone'', ''timeStr'']"

definition storeTimeField :: "string \<Rightarrow> jvalue \<Rightarrow> timeParams \<Rightarrow> error + timeParams" where
  "storeTimeField n v p =
     (case storeString n v of
        Inl e \<Rightarrow> Inl e
      | Inr None \<Rightarrow> Inr p
      | Inr (Some x) \<Rightarrow>
          Inr (if n = ''timezone'' then p\<lparr>tpTimezone := x\<rparr> else p\<lparr>tpTimeStr := x\<rparr>))"

definition unmarshalTimeParams :: "(string \<Rightarrow> string) \<Rightarrow> arguments \<Rightarrow> error + timeParams" where
  "unmarshalTimeParams fld args =
     Unmarshal storeTimeField fld timeFieldNames zeroTimeParams args"

definition handleGetCurrentTime :: "TimeServer \<Rightarrow> timeEnv \<Rightarrow> arguments \<Rightarrow> error + string" where
  "handleGetCurrentTime s env args =
     (case unmarshalTimeParams (teFold env) args of
        Inl e \<Rightarrow> Inl (''invalid parameters: '' @ e)
      | Inr params \<Rightarrow>
          (case convertTimeToTimezone s env (tpTimeStr params) (tpTimezone params) of
             (timezone, now, Some err) \<Rightarrow> Inl err
           | (timezone, now, None) \<Rightarrow>
               if tpTimeStr params = []
               then Inr (''Current time ('' @ timezone @ ''): '' @ Format_RFC3339 now)
               else Inr (''Converted time ('' @ timezone @ ''): '' @ Format_RFC3339 now)))"

section \<open>Concrete servers and environments\<close>

text \<open>
  The configurations and surroundings at which the theorems below are evaluated.
  \<open>asciiUpper\<close> folds the ASCII letters of a key, as the decoder's folding does.
\<close>

definition asciiUpper :: "string \<Rightarrow> string" where
  "asciiUpper s =
     map (\<lambda>c. if (97::nat) \<le> of_char c \<and> of_char c \<le> (122::nat)
              then char_of (of_char c - (32::nat)) else c) s"

definition wrapAround :: "real \<Rightarrow> int" where
  "wrapAround x = - (2 ^ 63)"

definition exampleSearchServer :: GoogleSearchServer where
  "exampleSearchServer =
     \<lparr>gsUserAgent = ''MCP-GoogleSearch-Server/1.0'', gsMaxBodySize = 10485760,
      gsApiKey = ''test-key'', gsSearchEngineID = ''test-cx''\<rparr>"

definition noCredentialsServer :: GoogleSearchServer where
  "noCredentialsServer =
     \<lparr>gsUserAgent = ''MCP-GoogleSearch-Server/1.0'', gsMaxBodySize = 10485760,
      gsApiKey = [], gsSearchEngineID = []\<rparr>"

definition noEngineIdServer :: GoogleSearchServer where
  "noEngineIdServer =
     \<lparr>gsUserAgent = ''MCP-GoogleSearch-Server/1.0'', gsMaxBodySize = 10485760,
      gsApiKey = ''test-key'', gsSearchEngineID = []\<rparr>"

definition smallCapSearchServer :: GoogleSearchServer where
  "smallCapSearchServer =
     \<lparr>gsUserAgent = ''MCP-GoogleSearch-Server/1.0'', gsMaxBodySize = 7,
      gsApiKey = ''test-key'', gsSearchEngineID = ''test-cx''\<rparr>"

definition emptyResultClient :: "request \<Rightarrow> error + response" where
  "emptyResultClient r =
     Inr \<lparr>respStatusCode = 200,
          respHeader = [(''Content-Type'', [''application/json''])],
          respBody = Body ''{}'' EOF\<rparr>"

definition notFoundResponse :: response where
  "notFoundResponse =
     \<lparr>respStatusCode = 404,
      respHeader = [(''Content-Type'', [''text/plain; charset=utf-8''])],
      respBody = Body ''404 page not found'' EOF\<rparr>"

definition resetResponse :: response where
  "resetResponse =
     \<lparr>respStatusCode = 200,
      respHeader = [(''Content-Length'', [''1000''])],
      respBody = Body ''partial'' (ErrAfter ''unexpected EOF'')\<rparr>"

definition notFoundClient :: "request \<Rightarrow> error + response" where
  "notFoundClient r = Inr notFoundResponse"

definition noItemsParser :: "string \<Rightarrow> error + GoogleApiResponse" where
  "noItemsParser b = Inr \<lparr>SearchInformation = None, Items = []\<rparr>"

definition exampleSearchEnv :: searchEnv where
  "exampleSearchEnv =
     \<lparr>seFold = asciiUpper, seOutOfRange = wrapAround,
      seClientDo = emptyResultClient, seParseResponse = noItemsParser\<rparr>"

definition notFoundSearchEnv :: searchEnv where
  "notFoundSearchEnv =
     \<lparr>seFold = asciiUpper, seOutOfRange = wrapAround,
      seClientDo = notFoundClient, seParseResponse = noItemsParser\<rparr>"

definition exampleFetchServer :: FetchServer where
  "exampleFetchServer = \<lparr>fsUserAgent = ''MCP-Fetch-Server/1.0'', fsMaxBodySize = 1024\<rparr>"

definition smallCapFetchServer :: FetchServer where
  "smallCapFetchServer = \<lparr>fsUserAgent = ''MCP-Fetch-Server/1.0'', fsMaxBodySize = 7\<rparr>"

definition acceptRequest :: "string \<Rightarrow> string \<Rightarrow> error option" where
  "acceptRequest method url = None"

definition noHeaders :: "string \<Rightarrow> error + (string \<times> string) list" where
  "noHeaders text = Inr []"

definition sameKey :: "string \<Rightarrow> string" where
  "sameKey k = k"

definition plainDetails :: "responseDetails \<Rightarrow> error + string" where
  "plainDetails d =
     Inr (''status_code: '' @ Itoa (rdStatusCode d) @ '', body: '' @ rdBody d
          @ '', url: '' @ rdURL d @ '', method: '' @ rdMethod d)"

definition notFoundFetchEnv :: fetchEnv where
  "notFoundFetchEnv =
     \<lparr>feFold = asciiUpper, feNewRequest = acceptRequest, feParseHeaders = noHeaders,
      feCanonicalKey = sameKey, feClientDo = notFoundClient, feMarshalIndent = plainDetails\<rparr>"

definition seoulOffset :: "int \<Rightarrow> int" where
  "seoulOffset unix = 32400"

definition Seoul :: Location where
  "Seoul = \<lparr>locName = ''Asia/Seoul'', locLookup = seoulOffset\<rparr>"

definition exampleZoneinfo :: "string \<Rightarrow> error + Location" where
  "exampleZoneinfo name =
     (if name = ''Asia/Seoul'' then Inr Seoul else Inl (''unknown time zone '' @ name))"

definition rejectLayout :: "string \<Rightarrow> error + Time" where
  "rejectLayout text = Inl (''parsing time '' @ text @ '': cannot parse'')"

definition exampleNow :: Time where
  "exampleNow = \<lparr>tSec = 63879546600, tNsec = 0, tLoc = UTC\<rparr>"

definition exampleTimeEnv :: timeEnv where
  "exampleTimeEnv =
     \<lparr>teFold = asciiUpper, teZoneinfo = exampleZoneinfo, teLocal = UTC,
      teNow = exampleNow, teParseLayout = rejectLayout\<rparr>"

definition utcDefaultServer :: TimeServer where
  "utcDefaultServer = \<lparr>tsDefaultTimezone = ''UTC''\<rparr>"

definition emptyDefaultServer :: TimeServer where
  "emptyDefaultServer = \<lparr>tsDefaultTimezone = []\<rparr>"

section \<open>Properties of the search server\<close>

subsection \<open>The result count\<close>

text \<open>
  The count that reaches the \<^verbatim>\<open>num\<close> parameter, case by case: a request of at most 0
  gives 5, a request above 10 gives 10, a request from 1 to 10 gives its integer part,
  and a request strictly between 0 and 1 gives 0.
\<close>

lemma effectiveNum_le0: "n \<le> 0 \<Longrightarrow> float64ToInt ov (effectiveNum n) = 5"
  by (simp add: effectiveNum_def float64ToInt_def truncInt_def)

lemma effectiveNum_gt10: "10 < n \<Longrightarrow> float64ToInt ov (effectiveNum n) = 10"
  by (simp add: effectiveNum_def float64ToInt_def truncInt_def)

lemma effectiveNum_in_range:
  assumes "1 \<le> n" "n \<le> 10"
  shows "float64ToInt ov (effectiveNum n) = \<lfloor>n\<rfloor>" "1 \<le> \<lfloor>n\<rfloor>" "\<lfloor>n\<rfloor> \<le> 10"
proof -
  show lo: "1 \<le> \<lfloor>n\<rfloor>" using assms by linarith
  show hi: "\<lfloor>n\<rfloor> \<le> 10" using assms by linarith
  have "effectiveNum n = n" using assms by (simp add: effectiveNum_def)
  moreover have "truncInt n = \<lfloor>n\<rfloor>" using assms by (simp add: truncInt_def)
  ultimately show "float64ToInt ov (effectiveNum n) = \<lfloor>n\<rfloor>"
    using lo hi by (simp add: float64ToInt_def)
qed

lemma effectiveNum_fraction:
  assumes "0 < n" "n < 1"
  shows "float64ToInt ov (effectiveNum n) = 0"
proof -
  have "effectiveNum n = n" using assms by (simp add: effectiveNum_def)
  moreover have "truncInt n = 0" using assms by (simp add: truncInt_def) linarith
  ultimately show ?thesis by (simp add: float64ToInt_def)
qed

text \<open>
  Claim C1 says that the count sent upstream as \<^verbatim>\<open>num\<close> always lies in the range from 1
  to 10. The handler compares the float64 with 0 and with 10 first and truncates
  afterwards: a search for \<^verbatim>\<open>go\<close> with \<^verbatim>\<open>num = 0.5\<close> on a configured server sends one
  request, whose \<^verbatim>\<open>num\<close> parameter is \<^verbatim>\<open>0\<close>.
\<close>

theorem search_num_fraction_sent_as_zero:
  "map reqQuery (snd (handleGoogleSearch exampleSearchServer exampleSearchEnv
      [(''num'', JNumber (1 / 2)), (''query'', JString ''go'')])) =
   [[(''q'', ''go''), (''key'', ''test-key''), (''cx'', ''test-cx''), (''num'', ''0''),
     (''start'', ''1''), (''safe'', ''off'')]]"
  by code_simp

subsection \<open>The safe-search flag\<close>

lemma searchValues_safe:
  "(''safe'', if SafeSearch p then ''active'' else ''off'') \<in> set (searchValues s env p)"
  by (simp add: searchValues_def)

text \<open>
  Claim C3 says that a search without a \<^verbatim>\<open>safeSearch\<close> argument is sent with
  \<^verbatim>\<open>safe=active\<close>. The arguments that hold only the query \<^verbatim>\<open>go\<close> decode to a parameter
  struct whose other fields keep their zero values, and the request that is sent carries
  \<^verbatim>\<open>safe=off\<close>.
\<close>

theorem search_safe_absent_sent_as_off:
  "unmarshalSearchParams (seFold exampleSearchEnv) [(''query'', JString ''go'')] =
     Inr (zeroSearchParams\<lparr>Query := ''go''\<rparr>) \<and>
   map reqQuery (snd (handleGoogleSearch exampleSearchServer exampleSearchEnv
      [(''query'', JString ''go'')])) =
   [[(''q'', ''go''), (''key'', ''test-key''), (''cx'', ''test-cx''), (''num'', ''5''),
     (''start'', ''1''), (''safe'', ''off'')]]"
  by code_simp

subsection \<open>The status report\<close>

text \<open>
  Claim C6: \<^verbatim>\<open>getApiStatus\<close> never fails. It returns the API-key message when the API key
  is empty (whatever the search-engine id), the search-engine-id message when only the
  search-engine id is empty, and the message of a proper configuration when both are
  present.
\<close>

theorem getApiStatus_reports:
  "(\<exists>msg. handleApiStatus s = Inr msg) \<and>
   (gsApiKey s = [] \<longrightarrow> handleApiStatus s = Inr apiKeyMissingStatus) \<and>
   (gsApiKey s \<noteq> [] \<and> gsSearchEngineID s = [] \<longrightarrow>
      handleApiStatus s = Inr searchEngineIdMissingStatus) \<and>
   (gsApiKey s \<noteq> [] \<and> gsSearchEngineID s \<noteq> [] \<longrightarrow>
      handleApiStatus s = Inr configuredStatus)"
  by (simp add: handleApiStatus_def)

text \<open>The three cases, at a server without credentials, one without search-engine id and a configured one.\<close>

theorem getApiStatus_reports_witness:
  "gsApiKey noCredentialsServer = [] \<and> gsSearchEngineID noCredentialsServer = [] \<and>
   handleApiStatus noCredentialsServer = Inr apiKeyMissingStatus \<and>
   gsApiKey noEngineIdServer \<noteq> [] \<and> gsSearchEngineID noEngineIdServer = [] \<and>
   handleApiStatus noEngineIdServer = Inr searchEngineIdMissingStatus \<and>
   gsApiKey exampleSearchServer \<noteq> [] \<and> gsSearchEngineID exampleSearchServer \<noteq> [] \<and>
   handleApiStatus exampleSearchServer = Inr configuredStatus"
  using getApiStatus_reports [of noCredentialsServer]
    getApiStatus_reports [of noEngineIdServer]
    getApiStatus_reports [of exampleSearchServer]
  by (simp add: noCredentialsServer_def noEngineIdServer_def exampleSearchServer_def)

subsection \<open>The order of the checks\<close>

text \<open>
  Claim C10: the credential check comes before the arguments are decoded and validated.
  Whatever the arguments are, a server without API key answers that the API key is not
  configured, a server with an API key and without search-engine id answers that the
  search-engine id is not configured, and neither sends a request; the empty-query
  error is only seen on a server that has both.
\<close>

theorem credentials_checked_first:
  "(gsApiKey s = [] \<longrightarrow>
      handleGoogleSearch s env args = (Inl ''API key is not configured'', [])) \<and>
   (gsApiKey s \<noteq> [] \<and> gsSearchEngineID s = [] \<longrightarrow>
      handleGoogleSearch s env args = (Inl ''Search Engine ID is not configured'', [])) \<and>
   (fst (handleGoogleSearch s env args) = Inl ''Search query cannot be empty'' \<longrightarrow>
      gsApiKey s \<noteq> [] \<and> gsSearchEngineID s \<noteq> [])"
  by (auto simp add: handleGoogleSearch_def)

text \<open>
  An empty query without credentials, an ill-typed query without search-engine id, and
  an empty query on a configured server.
\<close>

theorem credentials_checked_first_witness:
  "gsApiKey noCredentialsServer = [] \<and>
   handleGoogleSearch noCredentialsServer exampleSearchEnv [(''query'', JString [])] =
     (Inl ''API key is not configured'', []) \<and>
   gsApiKey noEngineIdServer \<noteq> [] \<and> gsSearchEngineID noEngineIdServer = [] \<and>
   handleGoogleSearch noEngineIdServer exampleSearchEnv [(''query'', JNumber 3)] =
     (Inl ''Search Engine ID is not configured'', []) \<and>
   fst (handleGoogleSearch exampleSearchServer exampleSearchEnv [(''query'', JString [])]) =
     Inl ''Search query cannot be empty'' \<and>
   gsApiKey exampleSearchServer \<noteq> [] \<and> gsSearchEngineID exampleSearchServer \<noteq> []"
proof -
  have q: "fst (handleGoogleSearch exampleSearchServer exampleSearchEnv [(''query'', JString [])]) =
     Inl ''Search query cannot be empty''"
    by code_simp
  show ?thesis
    using credentials_checked_first [of noCredentialsServer exampleSearchEnv "[(''query'', JString [])]"]
      credentials_checked_first [of noEngineIdServer exampleSearchEnv "[(''query'', JNumber 3)]"]
      credentials_checked_first [of exampleSearchServer exampleSearchEnv "[(''query'', JString [])]"]
      q
    by (simp add: noCredentialsServer_def noEngineIdServer_def)
qed

subsection \<open>The empty query\<close>

text \<open>
  Claim C4, as amended: on a server whose API key and search-engine id are both
  non-empty, an invocation whose arguments decode to an empty query fails with the
  message \<^verbatim>\<open>Search query cannot be empty\<close> and sends no request. The query is compared
  with the empty string as it is: any other query, one of blanks too, goes on to the
  exchange with the search API.
\<close>

theorem empty_query_rejected:
  assumes "gsApiKey s \<noteq> []" and "gsSearchEngineID s \<noteq> []"
    and "unmarshalSearchParams (seFold env) args = Inr p"
  shows "(Query p = [] \<longrightarrow>
            handleGoogleSearch s env args = (Inl ''Search query cannot be empty'', [])) \<and>
         (Query p \<noteq> [] \<longrightarrow> handleGoogleSearch s env args = searchExchange s env p)"
  using assms by (simp add: handleGoogleSearch_def)

text \<open>The empty query and the query of one blank, on the configured server.\<close>

theorem empty_query_rejected_witness:
  "gsApiKey exampleSearchServer \<noteq> [] \<and> gsSearchEngineID exampleSearchServer \<noteq> [] \<and>
   unmarshalSearchParams (seFold exampleSearchEnv) [(''query'', JString [])] = Inr zeroSearchParams \<and>
   Query zeroSearchParams = [] \<and>
   handleGoogleSearch exampleSearchServer exampleSearchEnv [(''query'', JString [])] =
     (Inl ''Search query cannot be empty'', []) \<and>
   unmarshalSearchParams (seFold exampleSearchEnv) [(''query'', JString '' '')] =
     Inr (zeroSearchParams\<lparr>Query := '' ''\<rparr>) \<and>
   Query (zeroSearchParams\<lparr>Query := '' ''\<rparr>) \<noteq> [] \<and>
   handleGoogleSearch exampleSearchServer exampleSearchEnv [(''query'', JString '' '')] =
     searchExchange exampleSearchServer exampleSearchEnv (zeroSearchParams\<lparr>Query := '' ''\<rparr>) \<and>
   map reqQuery (snd (searchExchange exampleSearchServer exampleSearchEnv
                        (zeroSearchParams\<lparr>Query := '' ''\<rparr>))) =
   [[(''q'', '' ''), (''key'', ''test-key''), (''cx'', ''test-cx''), (''num'', ''5''),
     (''start'', ''1''), (''safe'', ''off'')]]"
proof -
  have k: "gsApiKey exampleSearchServer \<noteq> []" and c: "gsSearchEngineID exampleSearchServer \<noteq> []"
    by (simp_all add: exampleSearchServer_def)
  have d0: "unmarshalSearchParams (seFold exampleSearchEnv) [(''query'', JString [])] = Inr zeroSearchParams"
    by code_simp
  have d1: "unmarshalSearchParams (seFold exampleSearchEnv) [(''query'', JString '' '')] =
     Inr (zeroSearchParams\<lparr>Query := '' ''\<rparr>)"
    by code_simp
  have q: "map reqQuery (snd (searchExchange exampleSearchServer exampleSearchEnv
                        (zeroSearchParams\<lparr>Query := '' ''\<rparr>))) =
   [[(''q'', '' ''), (''key'', ''test-key''), (''cx'', ''test-cx''), (''num'', ''5''),
     (''start'', ''1''), (''safe'', ''off'')]]"
    by code_simp
  show ?thesis
    using empty_query_rejected [OF k c d0] empty_query_rejected [OF k c d1] k c d0 d1 q
    by (simp add: zeroSearchParams_def)
qed

text \<open>
  Claim C4 as it is written does not hold: without credentials the invocation with the
  empty query is answered with the configuration error.
\<close>

theorem empty_query_without_credentials:
  "unmarshalSearchParams (seFold exampleSearchEnv) [(''query'', JString [])] = Inr zeroSearchParams \<and>
   Query zeroSearchParams = [] \<and>
   handleGoogleSearch noCredentialsServer exampleSearchEnv [(''query'', JString [])] =
     (Inl ''API key is not configured'', []) \<and>
   ''API key is not configured'' \<noteq> ''Search query cannot be empty''"
  by code_simp

section \<open>Properties of the bounded read\<close>

lemma ReadAll_LimitReader_length:
  "0 \<le> n \<Longrightarrow> int (length (fst (ReadAll_LimitReader (Body bytes fin) n))) \<le> n"
  by auto

lemma ReadAll_LimitReader_truncates:
  "0 \<le> n \<Longrightarrow> n < int (length bytes) \<Longrightarrow>
   ReadAll_LimitReader (Body bytes fin) n = (take (nat n) bytes, None)"
  by auto

lemma ReadAll_LimitReader_error:
  "snd (ReadAll_LimitReader (Body bytes fin) n) = Some e \<Longrightarrow>
   (fin = ErrAfter e \<or> fin = ErrWith e) \<and> int (length bytes) \<le> n"
  by (auto split: if_splits ending.splits)

lemma ReadAll_LimitReader_nonpositive:
  "n \<le> 0 \<Longrightarrow> ReadAll_LimitReader b n = ([], None)"
  by (cases b) simp

text \<open>
  Both handlers read the body of a response through the bounded read, with the
  server's \<^verbatim>\<open>maxBodySize\<close> as the cap. When the body is longer than the cap, the
  handler goes on with the first bytes of the body, as many as the cap allows.
\<close>

lemma fetchExchange_truncates:
  assumes "0 \<le> fsMaxBodySize fs" and "feClientDo fenv httpReq = Inr resp"
    and "respBody resp = Body bytes fin" and "fsMaxBodySize fs < int (length bytes)"
  shows "fetchExchange fs fenv fp httpReq =
     (case feMarshalIndent fenv
             \<lparr>rdStatusCode = respStatusCode resp, rdHeaders = firstValues (respHeader resp),
              rdBody = take (nat (fsMaxBodySize fs)) bytes, rdURL = fpURL fp,
              rdMethod = fetchMethod fp\<rparr> of
        Inl e \<Rightarrow> (Inl (''error marshaling response: '' @ e), [httpReq])
      | Inr responseJSON \<Rightarrow>
          (Inr (fetchReport (fpURL fp) (respStatusCode resp) responseJSON), [httpReq]))"
  using assms ReadAll_LimitReader_truncates [of "fsMaxBodySize fs" bytes fin]
  by (simp add: fetchExchange_def)

lemma searchExchange_truncates:
  assumes "0 \<le> gsMaxBodySize s" and "seClientDo env (searchRequest s env p) = Inr resp"
    and "respBody resp = Body bytes fin" and "gsMaxBodySize s < int (length bytes)"
  shows "searchExchange s env p =
     (if respStatusCode resp \<noteq> 200 then
        (Inl (apiError (take (nat (gsMaxBodySize s)) bytes) (respStatusCode resp)),
         [searchRequest s env p])
      else
        (case seParseResponse env (take (nat (gsMaxBodySize s)) bytes) of
           Inl e \<Rightarrow> (Inl (''failed to parse API response: '' @ e), [searchRequest s env p])
         | Inr apiResponse \<Rightarrow>
             (Inr (formatSearch (Query p) apiResponse), [searchRequest s env p])))"
  using assms ReadAll_LimitReader_truncates [of "gsMaxBodySize s" bytes fin]
  by (simp add: searchExchange_def Let_def)

text \<open>
  Claim C7: for every response stream and every cap \<open>n\<close> (a size in bytes, so
  \<open>0 \<le> n\<close>), the bounded read returns at most \<open>n\<close> bytes, and the response headers
  (the advertised \<^verbatim>\<open>Content-Length\<close> among them) have no part in it; a body of more
  than \<open>n\<close> bytes is cut to its first \<open>n\<close> bytes, exactly, and this is no error: the
  fetch handler and the search handler both go on with the truncated body; an error of
  the read is always the error of the stream itself, met before the stream had
  delivered more than \<open>n\<close> bytes.
\<close>

theorem bounded_read_within_cap:
  assumes "0 \<le> n" and "respBody resp = Body bytes fin"
  shows
  "int (length (fst (ReadAll_LimitReader (respBody resp) n))) \<le> n \<and>
   ReadAll_LimitReader (respBody (resp\<lparr>respHeader := h\<rparr>)) n =
     ReadAll_LimitReader (respBody resp) n \<and>
   (n < int (length bytes) \<longrightarrow>
      ReadAll_LimitReader (respBody resp) n = (take (nat n) bytes, None) \<and>
      int (length (take (nat n) bytes)) = n) \<and>
   (snd (ReadAll_LimitReader (respBody resp) n) = Some e \<longrightarrow>
      (fin = ErrAfter e \<or> fin = ErrWith e) \<and> int (length bytes) \<le> n) \<and>
   (fsMaxBodySize fs = n \<and> feClientDo fenv httpReq = Inr resp \<and> n < int (length bytes) \<longrightarrow>
      fetchExchange fs fenv fp httpReq =
        (case feMarshalIndent fenv
                \<lparr>rdStatusCode = respStatusCode resp, rdHeaders = firstValues (respHeader resp),
                 rdBody = take (nat n) bytes, rdURL = fpURL fp, rdMethod = fetchMethod fp\<rparr> of
           Inl e \<Rightarrow> (Inl (''error marshaling response: '' @ e), [httpReq])
         | Inr responseJSON \<Rightarrow>
             (Inr (fetchReport (fpURL fp) (respStatusCode resp) responseJSON), [httpReq]))) \<and>
   (gsMaxBodySize s = n \<and> seClientDo env (searchRequest s env p) = Inr resp \<and>
    n < int (length bytes) \<longrightarrow>
      searchExchange s env p =
        (if respStatusCode resp \<noteq> 200 then
           (Inl (apiError (take (nat n) bytes) (respStatusCode resp)), [searchRequest s env p])
         else
           (case seParseResponse env (take (nat n) bytes) of
              Inl e \<Rightarrow> (Inl (''failed to parse API response: '' @ e), [searchRequest s env p])
            | Inr apiResponse \<Rightarrow>
                (Inr (formatSearch (Query p) apiResponse), [searchRequest s env p]))))"
proof -
  have 1: "int (length (fst (ReadAll_LimitReader (respBody resp) n))) \<le> n"
    using ReadAll_LimitReader_length [OF assms(1), of bytes fin] assms(2) by simp
  have 2: "ReadAll_LimitReader (respBody (resp\<lparr>respHeader := h\<rparr>)) n =
           ReadAll_LimitReader (respBody resp) n" by simp
  have 3: "n < int (length bytes) \<longrightarrow>
      ReadAll_LimitReader (respBody resp) n = (take (nat n) bytes, None) \<and>
      int (length (take (nat n) bytes)) = n"
    using ReadAll_LimitReader_truncates [OF assms(1), of bytes fin] assms by auto
  have 4: "snd (ReadAll_LimitReader (respBody resp) n) = Some e \<longrightarrow>
      (fin = ErrAfter e \<or> fin = ErrWith e) \<and> int (length bytes) \<le> n"
    using ReadAll_LimitReader_error [of bytes fin n e] assms(2) by auto
  have 5: "fsMaxBodySize fs = n \<and> feClientDo fenv httpReq = Inr resp \<and> n < int (length bytes) \<longrightarrow>
      fetchExchange fs fenv fp httpReq =
        (case feMarshalIndent fenv
                \<lparr>rdStatusCode = respStatusCode resp, rdHeaders = firstValues (respHeader resp),
                 rdBody = take (nat n) bytes, rdURL = fpURL fp, rdMethod = fetchMethod fp\<rparr> of
           Inl e \<Rightarrow> (Inl (''error marshaling response: '' @ e), [httpReq])
         | Inr responseJSON \<Rightarrow>
             (Inr (fetchReport (fpURL fp) (respStatusCode resp) responseJSON), [httpReq]))"
    using fetchExchange_truncates [of fs fenv httpReq resp bytes fin fp] assms by auto
  have 6: "gsMaxBodySize s = n \<and> seClientDo env (searchRequest s env p) = Inr resp \<and>
    n < int (length bytes) \<longrightarrow>
      searchExchange s env p =
        (if respStatusCode resp \<noteq> 200 then
           (Inl (apiError (take (nat n) bytes) (respStatusCode resp)), [searchRequest s env p])
         else
           (case seParseResponse env (take (nat n) bytes) of
              Inl e \<Rightarrow> (Inl (''failed to parse API response: '' @ e), [searchRequest s env p])
            | Inr apiResponse \<Rightarrow>
                (Inr (formatSearch (Query p) apiResponse), [searchRequest s env p])))"
    using searchExchange_truncates [of s env p resp bytes fin] assms by auto
  show ?thesis using 1 2 3 4 5 6 by blast
qed

text \<open>
  A body of 18 bytes under a cap of 7, whatever length the headers advertise, read
  alone and by the fetch handler; and a stream that breaks after 7 bytes under a cap of
  1024.
\<close>

theorem bounded_read_within_cap_witness:
  "(0::int) \<le> 7 \<and> respBody notFoundResponse = Body ''404 page not found'' EOF \<and>
   7 < int (length ''404 page not found'') \<and>
   ReadAll_LimitReader (respBody notFoundResponse) 7 = (''404 pag'', None) \<and>
   int (length (fst (ReadAll_LimitReader (respBody notFoundResponse) 7))) \<le> 7 \<and>
   ReadAll_LimitReader (respBody (notFoundResponse\<lparr>respHeader := [(''Content-Length'', [''5''])]\<rparr>)) 7 =
     (''404 pag'', None) \<and>
   fsMaxBodySize smallCapFetchServer = 7 \<and>
   feClientDo notFoundFetchEnv (fetchRequest (zeroFetchParams\<lparr>fpURL := ''http://example.com/missing''\<rparr>)
        (fetchBaseHeaders smallCapFetchServer (zeroFetchParams\<lparr>fpURL := ''http://example.com/missing''\<rparr>)))
     = Inr notFoundResponse \<and>
   fst (handleFetchURL smallCapFetchServer notFoundFetchEnv [(''url'', JString ''http://example.com/missing'')]) =
     Inr (fetchReport ''http://example.com/missing'' 404
            ''status_code: 404, body: 404 pag, url: http://example.com/missing, method: GET'') \<and>
   (0::int) \<le> 1024 \<and> respBody resetResponse = Body ''partial'' (ErrAfter ''unexpected EOF'') \<and>
   snd (ReadAll_LimitReader (respBody resetResponse) 1024) = Some ''unexpected EOF'' \<and>
   int (length ''partial'') \<le> 1024"
proof -
  have b: "respBody notFoundResponse = Body ''404 page not found'' EOF"
    by (simp add: notFoundResponse_def)
  have r: "respBody resetResponse = Body ''partial'' (ErrAfter ''unexpected EOF'')"
    by (simp add: resetResponse_def)
  have e: "snd (ReadAll_LimitReader (respBody resetResponse) 1024) = Some ''unexpected EOF''"
    by (simp add: r)
  have c: "fsMaxBodySize smallCapFetchServer = 7" by (simp add: smallCapFetchServer_def)
  have d: "feClientDo notFoundFetchEnv (fetchRequest (zeroFetchParams\<lparr>fpURL := ''http://example.com/missing''\<rparr>)
        (fetchBaseHeaders smallCapFetchServer (zeroFetchParams\<lparr>fpURL := ''http://example.com/missing''\<rparr>)))
     = Inr notFoundResponse"
    by (simp add: notFoundFetchEnv_def notFoundClient_def)
  have f: "fst (handleFetchURL smallCapFetchServer notFoundFetchEnv [(''url'', JString ''http://example.com/missing'')]) =
     Inr (fetchReport ''http://example.com/missing'' 404
            ''status_code: 404, body: 404 pag, url: http://example.com/missing, method: GET'')"
    by code_simp
  have z7: "(0::int) \<le> 7" and z1024: "(0::int) \<le> 1024" by simp_all
  show ?thesis
    using bounded_read_within_cap [OF z7 b, where h = "[(''Content-Length'', [''5''])]"]
      bounded_read_within_cap [OF z1024 r, where e = "''unexpected EOF''"]
      b r e c d f
    by simp
qed

section \<open>Properties of the fetch server\<close>

text \<open>
  Claim C8, as amended: for every fetch invocation whose arguments decode into the
  parameter struct and whose URL does not start with \<^verbatim>\<open>http://\<close> or \<^verbatim>\<open>https://\<close>
  (compared byte by byte), the result is the failure with message
  \<^verbatim>\<open>URL must begin with http:// or https://\<close> and no request is sent; when the arguments
  do not decode, the result is the failure \<^verbatim>\<open>invalid parameters:\<close> with the decoder's
  error, and no request is sent either.
\<close>

theorem fetch_url_prefix_required:
  "(unmarshalFetchParams (feFold env) args = Inr p \<and>
    \<not> HasPrefix (fpURL p) ''http://'' \<and> \<not> HasPrefix (fpURL p) ''https://'' \<longrightarrow>
      handleFetchURL s env args = (Inl ''URL must begin with http:// or https://'', [])) \<and>
   (unmarshalFetchParams (feFold env) args = Inl e \<longrightarrow>
      handleFetchURL s env args = (Inl (''invalid parameters: '' @ e), []))"
  by (simp add: handleFetchURL_def)

text \<open>A URL whose scheme is written in capitals, and a URL that is not a string.\<close>

theorem fetch_url_prefix_required_witness:
  "unmarshalFetchParams (feFold notFoundFetchEnv) [(''url'', JString ''HTTP://example.com'')] =
     Inr (zeroFetchParams\<lparr>fpURL := ''HTTP://example.com''\<rparr>) \<and>
   \<not> HasPrefix (fpURL (zeroFetchParams\<lparr>fpURL := ''HTTP://example.com''\<rparr>)) ''http://'' \<and>
   \<not> HasPrefix (fpURL (zeroFetchParams\<lparr>fpURL := ''HTTP://example.com''\<rparr>)) ''https://'' \<and>
   handleFetchURL exampleFetchServer notFoundFetchEnv [(''url'', JString ''HTTP://example.com'')] =
     (Inl ''URL must begin with http:// or https://'', []) \<and>
   unmarshalFetchParams (feFold notFoundFetchEnv) [(''url'', JBool True)] =
     Inl ''json: cannot unmarshal bool into Go struct field .url of type string'' \<and>
   handleFetchURL exampleFetchServer notFoundFetchEnv [(''url'', JBool True)] =
     (Inl ''invalid parameters: json: cannot unmarshal bool into Go struct field .url of type string'', [])"
proof -
  have d: "unmarshalFetchParams (feFold notFoundFetchEnv) [(''url'', JString ''HTTP://example.com'')] =
     Inr (zeroFetchParams\<lparr>fpURL := ''HTTP://example.com''\<rparr>)"
    by code_simp
  have p1: "\<not> HasPrefix (fpURL (zeroFetchParams\<lparr>fpURL := ''HTTP://example.com''\<rparr>)) ''http://''"
    by code_simp
  have p2: "\<not> HasPrefix (fpURL (zeroFetchParams\<lparr>fpURL := ''HTTP://example.com''\<rparr>)) ''https://''"
    by code_simp
  have f: "unmarshalFetchParams (feFold notFoundFetchEnv) [(''url'', JBool True)] =
     Inl ''json: cannot unmarshal bool into Go struct field .url of type string''"
    by code_simp
  show ?thesis
    using fetch_url_prefix_required [of notFoundFetchEnv "[(''url'', JString ''HTTP://example.com'')]"
            "zeroFetchParams\<lparr>fpURL := ''HTTP://example.com''\<rparr>" exampleFetchServer]
      fetch_url_prefix_required [of notFoundFetchEnv "[(''url'', JBool True)]" _ exampleFetchServer
            "''json: cannot unmarshal bool into Go struct field .url of type string''"]
      d p1 p2 f
    by simp
qed

text \<open>
  Claim C8 as it is written does not hold: the arguments are decoded before the URL is
  looked at, so a URL without the prefix next to a \<^verbatim>\<open>method\<close> that is a number is
  answered with the decoder's error, not with the message about the URL.
\<close>

theorem fetch_bad_url_with_ill_typed_method:
  "\<not> HasPrefix ''ftp://example.com'' ''http://'' \<and> \<not> HasPrefix ''ftp://example.com'' ''https://'' \<and>
   handleFetchURL exampleFetchServer notFoundFetchEnv
     [(''method'', JNumber 5), (''url'', JString ''ftp://example.com'')] =
   (Inl ''invalid parameters: json: cannot unmarshal number into Go struct field .method of type string'', []) \<and>
   ''invalid parameters: json: cannot unmarshal number into Go struct field .method of type string''
     \<noteq> ''URL must begin with http:// or https://''"
  by code_simp

section \<open>Responses with a status other than success\<close>

text \<open>
  Claim C2, as amended: when the call of a search completes with a status other than 200
  (every status outside 2xx is one), the search handler still reads the body under the
  cap and returns the error \<^verbatim>\<open>API error: <body> (status code: <status>)\<close> with the
  bytes it has read, or the read error of the stream; it never returns a success. The
  fetch handler does not look at the status: when the read and the rendering succeed,
  its result is the success text that names the status code, whatever the status is.
\<close>

theorem search_non_200_is_error:
  "(gsApiKey s \<noteq> [] \<and> gsSearchEngineID s \<noteq> [] \<and>
    unmarshalSearchParams (seFold env) args = Inr p \<and> Query p \<noteq> [] \<and>
    seClientDo env (searchRequest s env p) = Inr resp \<and> respStatusCode resp \<noteq> 200 \<longrightarrow>
      handleGoogleSearch s env args =
        (Inl (case ReadAll_LimitReader (respBody resp) (gsMaxBodySize s) of
                (body, None) \<Rightarrow> apiError body (respStatusCode resp)
              | (body, Some e) \<Rightarrow> ''failed to read response body: '' @ e),
         [searchRequest s env p])) \<and>
   (feClientDo fenv httpReq = Inr fresp \<and>
    ReadAll_LimitReader (respBody fresp) (fsMaxBodySize fs) = (fbody, None) \<and>
    feMarshalIndent fenv
      \<lparr>rdStatusCode = respStatusCode fresp, rdHeaders = firstValues (respHeader fresp),
       rdBody = fbody, rdURL = fpURL fp, rdMethod = fetchMethod fp\<rparr> = Inr responseJSON \<longrightarrow>
      fetchExchange fs fenv fp httpReq =
        (Inr (fetchReport (fpURL fp) (respStatusCode fresp) responseJSON), [httpReq]))"
  by (auto simp add: handleGoogleSearch_def searchExchange_def fetchExchange_def Let_def
           split: prod.splits option.splits)

text \<open>A search answered with 404 and a body of 18 bytes, on a server whose cap is 7.\<close>

theorem search_non_200_is_error_witness:
  "gsApiKey smallCapSearchServer \<noteq> [] \<and> gsSearchEngineID smallCapSearchServer \<noteq> [] \<and>
   unmarshalSearchParams (seFold notFoundSearchEnv) [(''query'', JString ''go'')] =
     Inr (zeroSearchParams\<lparr>Query := ''go''\<rparr>) \<and>
   Query (zeroSearchParams\<lparr>Query := ''go''\<rparr>) \<noteq> [] \<and>
   seClientDo notFoundSearchEnv
     (searchRequest smallCapSearchServer notFoundSearchEnv (zeroSearchParams\<lparr>Query := ''go''\<rparr>)) =
     Inr notFoundResponse \<and>
   respStatusCode notFoundResponse \<noteq> 200 \<and>
   fst (handleGoogleSearch smallCapSearchServer notFoundSearchEnv [(''query'', JString ''go'')]) =
     Inl ''API error: 404 pag (status code: 404)''"
proof -
  have k: "gsApiKey smallCapSearchServer \<noteq> []" and c: "gsSearchEngineID smallCapSearchServer \<noteq> []"
    by (simp_all add: smallCapSearchServer_def)
  have d: "unmarshalSearchParams (seFold notFoundSearchEnv) [(''query'', JString ''go'')] =
     Inr (zeroSearchParams\<lparr>Query := ''go''\<rparr>)"
    by code_simp
  have q: "Query (zeroSearchParams\<lparr>Query := ''go''\<rparr>) \<noteq> []" by simp
  have r: "seClientDo notFoundSearchEnv
     (searchRequest smallCapSearchServer notFoundSearchEnv (zeroSearchParams\<lparr>Query := ''go''\<rparr>)) =
     Inr notFoundResponse"
    by (simp add: notFoundSearchEnv_def notFoundClient_def)
  have st: "respStatusCode notFoundResponse \<noteq> 200" by (simp add: notFoundResponse_def)
  have b: "(case ReadAll_LimitReader (respBody notFoundResponse) (gsMaxBodySize smallCapSearchServer) of
                (body, None) \<Rightarrow> apiError body (respStatusCode notFoundResponse)
              | (body, Some e) \<Rightarrow> ''failed to read response body: '' @ e) =
           ''API error: 404 pag (status code: 404)''"
    by code_simp
  show ?thesis
    using search_non_200_is_error [of smallCapSearchServer notFoundSearchEnv
            "[(''query'', JString ''go'')]" "zeroSearchParams\<lparr>Query := ''go''\<rparr>" notFoundResponse]
      k c d q r st b
    by simp
qed

text \<open>
  Claim C2 as it is written covers the fetch handler too. A fetch that is answered with
  404 returns a success result.
\<close>

theorem fetch_not_found_reported_as_success:
  "respStatusCode notFoundResponse = 404 \<and>
   feClientDo notFoundFetchEnv
     \<lparr>reqMethod = ''GET'', reqURL = ''http://example.com/missing'', reqQuery = [],
      reqHeader = [(''User-Agent'', ''MCP-Fetch-Server/1.0'')], reqBody = None\<rparr> = Inr notFoundResponse \<and>
   handleFetchURL exampleFetchServer notFoundFetchEnv [(''url'', JString ''http://example.com/missing'')] =
   (Inr (fetchReport ''http://example.com/missing'' 404
      ''status_code: 404, body: 404 page not found, url: http://example.com/missing, method: GET''),
    [\<lparr>reqMethod = ''GET'', reqURL = ''http://example.com/missing'', reqQuery = [],
      reqHeader = [(''User-Agent'', ''MCP-Fetch-Server/1.0'')], reqBody = None\<rparr>])"
  by code_simp

section \<open>Properties of the time server\<close>

lemma parse_fixed_instant:
  "parseRFC3339 local ''2025-04-06T14:30:00Z'' = Some \<lparr>tSec = 63879546600, tNsec = 0, tLoc = UTC\<rparr>"
  by (simp add: parseRFC3339_def parseUint_def slice_def isDigit_def digitVal_def daysIn_def
        isLeap_def parseZone_def Date_def daysSinceEpoch_def daysBefore_def)

lemma format_fixed_instant:
  "Format_RFC3339 (In \<lparr>tSec = 63879546600, tNsec = 0, tLoc = UTC\<rparr> UTC) = ''2025-04-06T14:30:00Z''"
  by code_simp

lemma convert_fixed_instant:
  "convertTimeToTimezone s env ''2025-04-06T14:30:00Z'' ''UTC'' =
     (''UTC'', In \<lparr>tSec = 63879546600, tNsec = 0, tLoc = UTC\<rparr> UTC, None)"
  by (simp add: convertTimeToTimezone_def LoadLocation_def Parse_RFC3339_def parse_fixed_instant)

lemma handler_fixed_instant:
  "handleGetCurrentTime utcDefaultServer exampleTimeEnv
     [(''timeStr'', JString ''2025-04-06T14:30:00Z''), (''timezone'', JString ''Asia/Seoul'')] =
   Inr ''Converted time (Asia/Seoul): 2025-04-06T23:30:00+09:00''"
  by code_simp

text \<open>
  Claim C9: on every server and in every environment, the conversion of
  \<^verbatim>\<open>2025-04-06T14:30:00Z\<close> to the timezone \<^verbatim>\<open>UTC\<close> succeeds, and the time it returns is
  rendered in RFC 3339 as \<^verbatim>\<open>2025-04-06T14:30:00Z\<close>: offset zero, and the date and time
  of day of the input. For every timezone that loads and every timestamp that parses,
  the conversion returns the parsed time shown in the loaded location: the instant
  (seconds and nanoseconds) is the one of the parsed time, only the location differs.
\<close>

theorem conversion_keeps_instant:
  "fst (convertTimeToTimezone s env ''2025-04-06T14:30:00Z'' ''UTC'') = ''UTC'' \<and>
   snd (snd (convertTimeToTimezone s env ''2025-04-06T14:30:00Z'' ''UTC'')) = None \<and>
   Format_RFC3339 (fst (snd (convertTimeToTimezone s env ''2025-04-06T14:30:00Z'' ''UTC''))) =
     ''2025-04-06T14:30:00Z'' \<and>
   (timeStr \<noteq> [] \<and>
    LoadLocation env (if requestedTimezone = [] then tsDefaultTimezone s else requestedTimezone) = Inr loc \<and>
    Parse_RFC3339 env timeStr = Inr parsedTime \<longrightarrow>
      convertTimeToTimezone s env timeStr requestedTimezone =
        (if requestedTimezone = [] then tsDefaultTimezone s else requestedTimezone,
         In parsedTime loc, None) \<and>
      tSec (In parsedTime loc) = tSec parsedTime \<and>
      tNsec (In parsedTime loc) = tNsec parsedTime \<and>
      unixSec (In parsedTime loc) = unixSec parsedTime \<and>
      tLoc (In parsedTime loc) = loc)"
  by (simp add: convert_fixed_instant format_fixed_instant)
     (simp add: convertTimeToTimezone_def In_def unixSec_def)

text \<open>
  The same instant converted to a zone nine hours east of UTC: the Unix time stays
  1743949800, the rendering becomes \<^verbatim>\<open>2025-04-06T23:30:00+09:00\<close>.
\<close>

theorem conversion_keeps_instant_witness:
  "''2025-04-06T14:30:00Z'' \<noteq> [] \<and>
   LoadLocation exampleTimeEnv ''Asia/Seoul'' = Inr Seoul \<and>
   Parse_RFC3339 exampleTimeEnv ''2025-04-06T14:30:00Z'' =
     Inr \<lparr>tSec = 63879546600, tNsec = 0, tLoc = UTC\<rparr> \<and>
   convertTimeToTimezone utcDefaultServer exampleTimeEnv ''2025-04-06T14:30:00Z'' ''Asia/Seoul'' =
     (''Asia/Seoul'', In \<lparr>tSec = 63879546600, tNsec = 0, tLoc = UTC\<rparr> Seoul, None) \<and>
   unixSec (In \<lparr>tSec = 63879546600, tNsec = 0, tLoc = UTC\<rparr> Seoul) = 1743949800 \<and>
   unixSec \<lparr>tSec = 63879546600, tNsec = 0, tLoc = UTC\<rparr> = 1743949800 \<and>
   Format_RFC3339 (In \<lparr>tSec = 63879546600, tNsec = 0, tLoc = UTC\<rparr> Seoul) =
     ''2025-04-06T23:30:00+09:00'' \<and>
   Format_RFC3339 (fst (snd (convertTimeToTimezone utcDefaultServer exampleTimeEnv
      ''2025-04-06T14:30:00Z'' ''UTC''))) = ''2025-04-06T14:30:00Z''"
proof -
  have l: "LoadLocation exampleTimeEnv ''Asia/Seoul'' = Inr Seoul"
    by (simp add: LoadLocation_def exampleTimeEnv_def exampleZoneinfo_def)
  have p: "Parse_RFC3339 exampleTimeEnv ''2025-04-06T14:30:00Z'' =
     Inr \<lparr>tSec = 63879546600, tNsec = 0, tLoc = UTC\<rparr>"
    by (simp add: Parse_RFC3339_def parse_fixed_instant)
  have u: "unixSec \<lparr>tSec = 63879546600, tNsec = 0, tLoc = UTC\<rparr> = 1743949800"
    by (simp add: unixSec_def unixToInternal_def)
  have f: "Format_RFC3339 (In \<lparr>tSec = 63879546600, tNsec = 0, tLoc = UTC\<rparr> Seoul) =
     ''2025-04-06T23:30:00+09:00''"
    by code_simp
  show ?thesis
    using conversion_keeps_instant [of utcDefaultServer exampleTimeEnv "''2025-04-06T14:30:00Z''"
            "''Asia/Seoul''" Seoul "\<lparr>tSec = 63879546600, tNsec = 0, tLoc = UTC\<rparr>"]
      l p u f
    by simp
qed

text \<open>
  Claim C5, as amended: for every conversion whose timezone identifier (the requested
  one, or the server's default when the request is empty) does not load, the operation
  fails with \<^verbatim>\<open>invalid timezone:\<close> and the loader's error, and returns the empty timezone
  string together with the zero-value instant; and every conversion that fails returns
  the two together.
\<close>

theorem invalid_timezone_no_result:
  "(LoadLocation env (if requestedTimezone = [] then tsDefaultTimezone s else requestedTimezone) = Inl e \<longrightarrow>
      convertTimeToTimezone s env timeStr requestedTimezone =
        ([], zeroTime, Some (''invalid timezone: '' @ e))) \<and>
   (snd (snd (convertTimeToTimezone s env timeStr requestedTimezone)) \<noteq> None \<longrightarrow>
      fst (convertTimeToTimezone s env timeStr requestedTimezone) = [] \<and>
      fst (snd (convertTimeToTimezone s env timeStr requestedTimezone)) = zeroTime)"
  by (auto simp add: convertTimeToTimezone_def Let_def split: sum.splits)

text \<open>The timezone \<^verbatim>\<open>Invalid/TimeZone\<close>, which the database does not know.\<close>

theorem invalid_timezone_no_result_witness:
  "LoadLocation exampleTimeEnv ''Invalid/TimeZone'' = Inl ''unknown time zone Invalid/TimeZone'' \<and>
   convertTimeToTimezone utcDefaultServer exampleTimeEnv [] ''Invalid/TimeZone'' =
     ([], zeroTime, Some ''invalid timezone: unknown time zone Invalid/TimeZone'') \<and>
   snd (snd (convertTimeToTimezone utcDefaultServer exampleTimeEnv [] ''Invalid/TimeZone'')) \<noteq> None \<and>
   fst (convertTimeToTimezone utcDefaultServer exampleTimeEnv [] ''Invalid/TimeZone'') = [] \<and>
   fst (snd (convertTimeToTimezone utcDefaultServer exampleTimeEnv [] ''Invalid/TimeZone'')) = zeroTime \<and>
   IsZero zeroTime"
proof -
  have l: "LoadLocation exampleTimeEnv ''Invalid/TimeZone'' = Inl ''unknown time zone Invalid/TimeZone''"
    by (simp add: LoadLocation_def exampleTimeEnv_def exampleZoneinfo_def)
  have z: "IsZero zeroTime" by (simp add: IsZero_def zeroTime_def)
  show ?thesis
    using invalid_timezone_no_result [of exampleTimeEnv "''Invalid/TimeZone''" utcDefaultServer
            "''unknown time zone Invalid/TimeZone''" "[]"] l z
    by simp
qed

text \<open>
  Claim C5 as it is written also says that the empty timezone string and the zero-value
  instant never occur one without the other. Both occur alone in successful
  conversions: with an empty request and an empty default the loader takes the empty
  name for UTC, and the current time comes back under the empty timezone string; and
  the timestamp \<^verbatim>\<open>0001-01-01T00:00:00Z\<close> converted to UTC is the zero instant under the
  timezone string \<^verbatim>\<open>UTC\<close>.
\<close>

theorem empty_timezone_and_zero_instant_apart:
  "fst (convertTimeToTimezone emptyDefaultServer exampleTimeEnv [] []) = [] \<and>
   \<not> IsZero (fst (snd (convertTimeToTimezone emptyDefaultServer exampleTimeEnv [] []))) \<and>
   snd (snd (convertTimeToTimezone emptyDefaultServer exampleTimeEnv [] [])) = None \<and>
   fst (convertTimeToTimezone utcDefaultServer exampleTimeEnv ''0001-01-01T00:00:00Z'' ''UTC'') = ''UTC'' \<and>
   IsZero (fst (snd (convertTimeToTimezone utcDefaultServer exampleTimeEnv ''0001-01-01T00:00:00Z'' ''UTC''))) \<and>
   snd (snd (convertTimeToTimezone utcDefaultServer exampleTimeEnv ''0001-01-01T00:00:00Z'' ''UTC'')) = None"
  by code_simp

end
